theory Spec2Isabelle
  imports Main
begin

section \<open>Zero values\<close>

text \<open>
  A Go composite literal fills every field it leaves out with the zero value of the
  field's type. The class \<open>default\<close> of HOL stands for "the type has a zero value";
  the instances below give Go's zero values for the types used in this development:
  \<open>0\<close> for \<open>int\<close>, \<open>false\<close> for \<open>bool\<close>, the empty string for \<open>string\<close>
  (a \<open>char list\<close>) and \<open>nil\<close> for an interface value (\<open>None\<close>).
\<close>

instantiation int :: default
begin
definition default_int :: int where
  "default_int = 0"
instance ..
end

instantiation bool :: default
begin
definition default_bool :: bool where
  "default_bool = False"
instance ..
end

instantiation list :: (type) default
begin
definition default_list :: "'a list" where
  "default_list = []"
instance ..
end

instantiation option :: (type) default
begin
definition default_option :: "'a option" where
  "default_option = None"
instance ..
end

text \<open>
  Go's \<open>error\<close> is an interface type: a value of it is \<open>nil\<close> or a non-nil error.
  The non-nil errors are left abstract (the type parameter \<open>'e\<close>).
\<close>

type_synonym 'e error = "'e option"

section \<open>Maybe (package maybepkg)\<close>

text \<open>
  \<open>type Maybe[T any] struct { value T; isJust bool }\<close>.
  The field \<open>value\<close> is called \<open>mvalue\<close> here.
\<close>

record 't Maybe =
  mvalue :: 't
  isJust :: bool

definition Just :: "'t \<Rightarrow> 't Maybe" where
  "Just val = \<lparr>mvalue = val, isJust = True\<rparr>"

definition Nothing :: "('t::default) Maybe" where
  "Nothing = \<lparr>mvalue = default, isJust = False\<rparr>"

definition Bind :: "'t Maybe \<Rightarrow> ('t \<Rightarrow> ('u::default) Maybe) \<Rightarrow> 'u Maybe" where
  "Bind m f = (if \<not> isJust m then Nothing else f (mvalue m))"

definition Map :: "'t Maybe \<Rightarrow> ('t \<Rightarrow> ('u::default)) \<Rightarrow> 'u Maybe" where
  "Map m f = (if \<not> isJust m then Nothing else Just (f (mvalue m)))"

definition Unpack :: "'t Maybe \<Rightarrow> 't \<Rightarrow> 't" where
  "Unpack m defaultValue = (if \<not> isJust m then defaultValue else mvalue m)"

definition IsJust :: "'t Maybe \<Rightarrow> bool" where
  "IsJust m = isJust m"

definition IsNothing :: "'t Maybe \<Rightarrow> bool" where
  "IsNothing m = (\<not> isJust m)"

definition Maybe_Get :: "'t Maybe \<Rightarrow> 't" where
  "Maybe_Get m = mvalue m"

section \<open>Result (result.go)\<close>

text \<open>
  \<open>type Result[T any] struct { value T; err error; isError bool }\<close>.
  The field \<open>value\<close> is called \<open>rvalue\<close> here.
\<close>

record ('e, 't) Result =
  rvalue :: 't
  err :: "'e error"
  isError :: bool

definition Ok :: "'t \<Rightarrow> ('e, 't) Result" where
  "Ok val = \<lparr>rvalue = val, err = None, isError = False\<rparr>"

definition Err :: "'e error \<Rightarrow> ('e, 't::default) Result" where
  "Err e = \<lparr>rvalue = default, err = e, isError = True\<rparr>"

definition IsOk :: "('e, 't) Result \<Rightarrow> bool" where
  "IsOk r = (\<not> isError r)"

definition IsErr :: "('e, 't) Result \<Rightarrow> bool" where
  "IsErr r = isError r"

definition Result_Get :: "('e, 't) Result \<Rightarrow> 't" where
  "Result_Get r = rvalue r"

definition GetErr :: "('e, 't) Result \<Rightarrow> 'e error" where
  "GetErr r = err r"

definition BindResult ::
  "('e, 't) Result \<Rightarrow> ('t \<Rightarrow> ('e, 'u::default) Result) \<Rightarrow> ('e, 'u) Result" where
  "BindResult r f = (if isError r then Err (err r) else f (rvalue r))"

definition MapResult ::
  "('e, 't) Result \<Rightarrow> ('t \<Rightarrow> ('u::default)) \<Rightarrow> ('e, 'u) Result" where
  "MapResult r f = (if isError r then Err (err r) else Ok (f (rvalue r)))"

section \<open>Either (either.go)\<close>

text \<open>\<open>type Either[A any, B any] struct { left A; right B; isLeft bool }\<close>\<close>

record ('a, 'b) Either =
  left :: 'a
  right :: 'b
  isLeft :: bool

definition Left :: "'a \<Rightarrow> ('a, 'b::default) Either" where
  "Left val = \<lparr>left = val, right = default, isLeft = True\<rparr>"

definition Right :: "'b \<Rightarrow> ('a::default, 'b) Either" where
  "Right val = \<lparr>left = default, right = val, isLeft = False\<rparr>"

definition IsLeft :: "('a, 'b) Either \<Rightarrow> bool" where
  "IsLeft e = isLeft e"

definition IsRight :: "('a, 'b) Either \<Rightarrow> bool" where
  "IsRight e = (\<not> isLeft e)"

text \<open>
  The methods \<open>Left()\<close> and \<open>Right()\<close> of the source share their names with the
  constructors \<open>Left\<close> and \<open>Right\<close>; the methods are \<open>Either_Left\<close> and
  \<open>Either_Right\<close> here.
\<close>

definition Either_Left :: "('a, 'b) Either \<Rightarrow> 'a" where
  "Either_Left e = left e"

definition Either_Right :: "('a, 'b) Either \<Rightarrow> 'b" where
  "Either_Right e = right e"

definition MapRight ::
  "('a::default, 'b::default) Either \<Rightarrow> ('b \<Rightarrow> ('c::default)) \<Rightarrow> ('a, 'c) Either" where
  "MapRight e f = (if isLeft e then Left (left e) else Right (f (right e)))"

definition Fold :: "('a, 'b) Either \<Rightarrow> ('a \<Rightarrow> 't) \<Rightarrow> ('b \<Rightarrow> 't) \<Rightarrow> 't" where
  "Fold e leftFunc rightFunc = (if isLeft e then leftFunc (left e) else rightFunc (right e))"

definition Swap :: "('a::default, 'b::default) Either \<Rightarrow> ('b, 'a) Either" where
  "Swap e = (if isLeft e then Right (left e) else Left (right e))"

definition MapLeft ::
  "('a::default, 'b::default) Either \<Rightarrow> ('a \<Rightarrow> ('c::default)) \<Rightarrow> ('c, 'b) Either" where
  "MapLeft e f = (if isLeft e then Left (f (left e)) else Right (right e))"

definition ToResult :: "('e error, 't::default) Either \<Rightarrow> ('e, 't) Result" where
  "ToResult e = (if isLeft e then Err (left e) else Ok (right e))"

section \<open>Callbacks with effects\<close>

text \<open>
  A Go \<open>func\<close> value may have effects, so whether an operation calls its callback
  is observable. The operations that take callbacks are therefore given a second time
  in state-passing form: a callback takes the state and returns its result together
  with the new state, and the operation threads the state through exactly the calls
  the source makes. An operation that returns the state it was given has called
  nothing.
\<close>

definition Bind_eff ::
  "'t Maybe \<Rightarrow> ('t \<Rightarrow> 's \<Rightarrow> ('u::default) Maybe \<times> 's) \<Rightarrow> 's \<Rightarrow> 'u Maybe \<times> 's" where
  "Bind_eff m f s = (if \<not> isJust m then (Nothing, s) else f (mvalue m) s)"

definition Map_eff ::
  "'t Maybe \<Rightarrow> ('t \<Rightarrow> 's \<Rightarrow> ('u::default) \<times> 's) \<Rightarrow> 's \<Rightarrow> 'u Maybe \<times> 's" where
  "Map_eff m f s =
     (if \<not> isJust m then (Nothing, s)
      else (case f (mvalue m) s of (y, s') \<Rightarrow> (Just y, s')))"

definition BindResult_eff ::
  "('e, 't) Result \<Rightarrow> ('t \<Rightarrow> 's \<Rightarrow> ('e, 'u::default) Result \<times> 's) \<Rightarrow> 's
     \<Rightarrow> ('e, 'u) Result \<times> 's" where
  "BindResult_eff r f s = (if isError r then (Err (err r), s) else f (rvalue r) s)"

definition MapResult_eff ::
  "('e, 't) Result \<Rightarrow> ('t \<Rightarrow> 's \<Rightarrow> ('u::default) \<times> 's) \<Rightarrow> 's \<Rightarrow> ('e, 'u) Result \<times> 's" where
  "MapResult_eff r f s =
     (if isError r then (Err (err r), s)
      else (case f (rvalue r) s of (y, s') \<Rightarrow> (Ok y, s')))"

definition Fold_eff ::
  "('a, 'b) Either \<Rightarrow> ('a \<Rightarrow> 's \<Rightarrow> 't \<times> 's) \<Rightarrow> ('b \<Rightarrow> 's \<Rightarrow> 't \<times> 's) \<Rightarrow> 's \<Rightarrow> 't \<times> 's" where
  "Fold_eff e leftFunc rightFunc s =
     (if isLeft e then leftFunc (left e) s else rightFunc (right e) s)"

text \<open>A callback without effects leaves the state alone.\<close>

definition pure_cb :: "('a \<Rightarrow> 'b) \<Rightarrow> 'a \<Rightarrow> 's \<Rightarrow> 'b \<times> 's" where
  "pure_cb f x s = (f x, s)"

text \<open>
  Counting stubs: \<open>counted f\<close> computes \<open>f\<close> and adds one to a call counter;
  \<open>countedL\<close> and \<open>countedR\<close> do so on the first and on the second of two
  counters.
\<close>

definition counted :: "('a \<Rightarrow> 'b) \<Rightarrow> 'a \<Rightarrow> nat \<Rightarrow> 'b \<times> nat" where
  "counted f x n = (f x, Suc n)"

definition countedL :: "('a \<Rightarrow> 'b) \<Rightarrow> 'a \<Rightarrow> nat \<times> nat \<Rightarrow> 'b \<times> (nat \<times> nat)" where
  "countedL f x c = (f x, (Suc (fst c), snd c))"

definition countedR :: "('a \<Rightarrow> 'b) \<Rightarrow> 'a \<Rightarrow> nat \<times> nat \<Rightarrow> 'b \<times> (nat \<times> nat)" where
  "countedR f x c = (f x, (fst c, Suc (snd c)))"

section \<open>The representation invariant\<close>

text \<open>
  The fields of the three structs are unexported, so a client builds a container only
  with the constructors (or as the zero value of the struct, which is \<open>Nothing\<close>,
  \<open>Ok\<close> of the zero value and \<open>Right\<close> of the zero value). Every such value keeps
  the zero value in the field of the alternative that is not populated.
\<close>

definition wf_Maybe :: "('t::default) Maybe \<Rightarrow> bool" where
  "wf_Maybe m = (isJust m \<or> mvalue m = default)"

definition wf_Result :: "('e, 't::default) Result \<Rightarrow> bool" where
  "wf_Result r = (if isError r then rvalue r = default else err r = None)"

definition wf_Either :: "('a::default, 'b::default) Either \<Rightarrow> bool" where
  "wf_Either e = (if isLeft e then right e = default else left e = default)"

section \<open>Basic facts\<close>

lemmas maybe_defs = Just_def Nothing_def Bind_def Map_def Unpack_def IsJust_def
  IsNothing_def Maybe_Get_def

lemmas result_defs = Ok_def Err_def IsOk_def IsErr_def Result_Get_def GetErr_def
  BindResult_def MapResult_def

lemmas either_defs = Left_def Right_def IsLeft_def IsRight_def Either_Left_def
  Either_Right_def MapRight_def MapLeft_def Fold_def Swap_def ToResult_def

lemmas eff_defs = Bind_eff_def Map_eff_def BindResult_eff_def MapResult_eff_def
  Fold_eff_def pure_cb_def counted_def countedL_def countedR_def

text \<open>The invariant describes exactly the values the constructors build.\<close>

lemma wf_Maybe_iff: "wf_Maybe m \<longleftrightarrow> m = Nothing \<or> (\<exists>v. m = Just v)"
proof (cases m)
  case (fields v j)
  then show ?thesis
    by (cases j) (simp_all add: wf_Maybe_def Just_def Nothing_def)
qed

lemma wf_Result_iff: "wf_Result r \<longleftrightarrow> (\<exists>e. r = Err e) \<or> (\<exists>v. r = Ok v)"
proof (cases r)
  case (fields v e b)
  then show ?thesis
    by (cases b) (simp_all add: wf_Result_def Ok_def Err_def)
qed

lemma wf_Either_iff: "wf_Either e \<longleftrightarrow> (\<exists>a. e = Left a) \<or> (\<exists>b. e = Right b)"
proof (cases e)
  case (fields a b l)
  then show ?thesis
    by (cases l) (simp_all add: wf_Either_def Left_def Right_def)
qed

text \<open>
  The invariant is what makes a container equal to the constructor term that built
  it. A struct literal written inside the package can break it (an absent value with
  a payload left in the field), and the operations, which always go through the
  constructors, then return the normalised value.
\<close>

lemma Map_not_wf:
  "\<not> wf_Maybe \<lparr>mvalue = 5 :: int, isJust = False\<rparr> \<and>
   Map \<lparr>mvalue = 5 :: int, isJust = False\<rparr> (\<lambda>x. x) = Nothing \<and>
   (Nothing :: int Maybe) \<noteq> \<lparr>mvalue = 5, isJust = False\<rparr>"
  by (simp add: wf_Maybe_def Map_def Nothing_def default_int_def)

lemma Swap_not_wf:
  "\<not> wf_Either \<lparr>left = 1 :: int, right = 2 :: int, isLeft = True\<rparr> \<and>
   Swap (Swap \<lparr>left = 1 :: int, right = 2 :: int, isLeft = True\<rparr>) = Left 1 \<and>
   (Left 1 :: (int, int) Either) \<noteq> \<lparr>left = 1, right = 2, isLeft = True\<rparr>"
  by (simp add: wf_Either_def Swap_def Left_def Right_def default_int_def)

text \<open>Every operation keeps the invariant, given callbacks that do.\<close>

lemma wf_Bind: "(\<And>x. wf_Maybe (f x)) \<Longrightarrow> wf_Maybe (Bind m f)"
  by (simp add: Bind_def wf_Maybe_def Nothing_def)

lemma wf_Map: "wf_Maybe (Map m f)"
  by (simp add: Map_def wf_Maybe_def Nothing_def Just_def)

lemma wf_BindResult: "(\<And>x. wf_Result (f x)) \<Longrightarrow> wf_Result (BindResult r f)"
  by (simp add: BindResult_def wf_Result_def Err_def)

lemma wf_MapResult: "wf_Result (MapResult r f)"
  by (simp add: MapResult_def wf_Result_def Err_def Ok_def)

lemma wf_MapRight: "wf_Either (MapRight e f)"
  by (simp add: MapRight_def wf_Either_def Left_def Right_def)

lemma wf_MapLeft: "wf_Either (MapLeft e f)"
  by (simp add: MapLeft_def wf_Either_def Left_def Right_def)

lemma wf_Swap: "wf_Either (Swap e)"
  by (simp add: Swap_def wf_Either_def Left_def Right_def)

lemma wf_ToResult: "wf_Result (ToResult e)"
  by (simp add: ToResult_def wf_Result_def Err_def Ok_def)

text \<open>With callbacks that have no effect, the state-passing forms are the pure ones.\<close>

lemma Bind_eff_pure: "Bind_eff m (pure_cb f) s = (Bind m f, s)"
  by (simp add: Bind_eff_def Bind_def pure_cb_def)

lemma Map_eff_pure: "Map_eff m (pure_cb f) s = (Map m f, s)"
  by (simp add: Map_eff_def Map_def pure_cb_def)

lemma BindResult_eff_pure: "BindResult_eff r (pure_cb f) s = (BindResult r f, s)"
  by (simp add: BindResult_eff_def BindResult_def pure_cb_def)

lemma MapResult_eff_pure: "MapResult_eff r (pure_cb f) s = (MapResult r f, s)"
  by (simp add: MapResult_eff_def MapResult_def pure_cb_def)

lemma Fold_eff_pure: "Fold_eff e (pure_cb f) (pure_cb g) s = (Fold e f g, s)"
  by (simp add: Fold_eff_def Fold_def pure_cb_def)

text \<open>
  The counting stub does count: on a present value and on a success the callback
  is called once.
\<close>

lemma Bind_eff_counted_Just: "Bind_eff (Just v) (counted f) n = (f v, Suc n)"
  by (simp add: Bind_eff_def Just_def counted_def)

lemma Map_eff_counted_Just: "Map_eff (Just v) (counted f) n = (Just (f v), Suc n)"
  by (simp add: Map_eff_def Just_def counted_def)

lemma BindResult_eff_counted_Ok: "BindResult_eff (Ok v) (counted f) n = (f v, Suc n)"
  by (simp add: BindResult_eff_def Ok_def counted_def)

lemma MapResult_eff_counted_Ok: "MapResult_eff (Ok v) (counted f) n = (Ok (f v), Suc n)"
  by (simp add: MapResult_eff_def Ok_def counted_def)

section \<open>Short-circuiting\<close>

text \<open>
  C1. For every Maybe \<open>m\<close> that is Nothing and every callback, \<open>Bind\<close> returns
  Nothing and does not call the callback: whatever effect the callback has, the state
  comes back as it was given. For every Result \<open>r\<close> that is an error and every
  callback, \<open>BindResult\<close> and \<open>MapResult\<close> return the error result that carries
  the error of \<open>r\<close> unchanged, and do not call the callback either.
\<close>

theorem short_circuit:
  "(IsNothing m \<longrightarrow>
      Bind m f = Nothing \<and> IsNothing (Bind m f) \<and> Bind_eff m fe s = (Nothing, s)) \<and>
   (IsErr r \<longrightarrow>
      BindResult r g = Err (GetErr r) \<and> IsErr (BindResult r g) \<and>
      GetErr (BindResult r g) = GetErr r \<and>
      BindResult_eff r ge s = (Err (GetErr r), s) \<and>
      MapResult r h = Err (GetErr r) \<and> IsErr (MapResult r h) \<and>
      GetErr (MapResult r h) = GetErr r \<and>
      MapResult_eff r he s = (Err (GetErr r), s))"
  by (simp add: maybe_defs result_defs Bind_eff_def BindResult_eff_def MapResult_eff_def)

theorem short_circuit_witness:
  "IsNothing (Nothing :: int Maybe) \<and>
   Bind (Nothing :: int Maybe) (\<lambda>x. Just (x + 1)) = (Nothing :: int Maybe) \<and>
   Bind_eff (Nothing :: int Maybe) (counted (\<lambda>x. Just (x + 1))) 0 = (Nothing :: int Maybe, 0) \<and>
   IsErr (Err (Some ''bad'') :: (string, int) Result) \<and>
   BindResult (Err (Some ''bad'') :: (string, int) Result) (\<lambda>x. Ok (x + 1))
     = (Err (Some ''bad'') :: (string, int) Result) \<and>
   BindResult_eff (Err (Some ''bad'') :: (string, int) Result) (counted (\<lambda>x. Ok (x + 1))) 0
     = (Err (Some ''bad'') :: (string, int) Result, 0) \<and>
   MapResult (Err (Some ''bad'') :: (string, int) Result) (\<lambda>x. x + 1)
     = (Err (Some ''bad'') :: (string, int) Result) \<and>
   MapResult_eff (Err (Some ''bad'') :: (string, int) Result) (counted (\<lambda>x. x + 1)) 0
     = (Err (Some ''bad'') :: (string, int) Result, 0)"
  using short_circuit [of "Nothing :: int Maybe" "\<lambda>x. Just (x + 1)"
      "counted (\<lambda>x. Just (x + 1))" 0 "Err (Some ''bad'') :: (string, int) Result"
      "\<lambda>x. Ok (x + 1)" "counted (\<lambda>x. Ok (x + 1))" "\<lambda>x. x + 1" "counted (\<lambda>x. x + 1)"]
  by (simp add: IsNothing_def Nothing_def IsErr_def Err_def GetErr_def)

section \<open>The bridge from Either to Result\<close>

text \<open>
  C2. For every error value \<open>a\<close> (nil included), \<open>ToResult (Left a)\<close> is an error
  result whose error is \<open>a\<close>; for every value \<open>b\<close>, \<open>ToResult (Right b)\<close> is a
  success whose value is \<open>b\<close>.
\<close>

theorem ToResult_bridge:
  "IsErr (ToResult (Left a)) \<and> GetErr (ToResult (Left a)) = a \<and>
   ToResult (Left a) = Err a \<and>
   IsOk (ToResult (Right b)) \<and> Result_Get (ToResult (Right b)) = b \<and>
   ToResult (Right b) = Ok b"
  by (simp add: ToResult_def Left_def Right_def result_defs)

section \<open>Fold\<close>

text \<open>
  C3. On an Either whose left side is populated, \<open>Fold\<close> returns what \<open>leftFunc\<close>
  returns on the left value, calls \<open>leftFunc\<close> once and does not call
  \<open>rightFunc\<close>; on an Either whose right side is populated, it returns what
  \<open>rightFunc\<close> returns on the right value, calls \<open>rightFunc\<close> once and does not
  call \<open>leftFunc\<close>. With effectful callbacks the whole effect of \<open>Fold\<close> is the
  effect of the selected callback; with the counting stubs exactly one of the two
  counters goes up, by one.
\<close>

theorem Fold_exactly_one:
  "(IsLeft e \<longrightarrow>
      Fold e onLeft onRight = onLeft (Either_Left e) \<and>
      Fold_eff e fl fr s = fl (Either_Left e) s \<and>
      Fold_eff e (countedL onLeft) (countedR onRight) (l, r)
        = (onLeft (Either_Left e), (Suc l, r))) \<and>
   (IsRight e \<longrightarrow>
      Fold e onLeft onRight = onRight (Either_Right e) \<and>
      Fold_eff e fl fr s = fr (Either_Right e) s \<and>
      Fold_eff e (countedL onLeft) (countedR onRight) (l, r)
        = (onRight (Either_Right e), (l, Suc r)))"
  by (simp add: IsLeft_def IsRight_def Either_Left_def Either_Right_def Fold_def
      Fold_eff_def countedL_def countedR_def)

theorem Fold_exactly_one_witness:
  "IsLeft (Left 3 :: (int, string) Either) \<and>
   Fold (Left 3 :: (int, string) Either) (\<lambda>i. i + 1) (\<lambda>s. 0) = 4 \<and>
   Fold_eff (Left 3 :: (int, string) Either) (countedL (\<lambda>i. i + 1)) (countedR (\<lambda>s. 0)) (0, 0)
     = (4, (1, 0)) \<and>
   IsRight (Right ''x'' :: (int, string) Either) \<and>
   Fold (Right ''x'' :: (int, string) Either) (\<lambda>i. i + 1) (\<lambda>s. 0) = 0 \<and>
   Fold_eff (Right ''x'' :: (int, string) Either) (countedL (\<lambda>i. i + 1)) (countedR (\<lambda>s. 0)) (0, 0)
     = (0, (0, 1))"
  using Fold_exactly_one [of "Left 3 :: (int, string) Either" "\<lambda>i. i + 1" "\<lambda>s. 0"
      "countedL (\<lambda>i. i + 1)" "countedR (\<lambda>s. 0)" "(0, 0)" 0 0]
    Fold_exactly_one [of "Right ''x'' :: (int, string) Either" "\<lambda>i. i + 1" "\<lambda>s. 0"
      "countedL (\<lambda>i. i + 1)" "countedR (\<lambda>s. 0)" "(0, 0)" 0 0]
  by (simp add: IsLeft_def IsRight_def Either_Left_def Either_Right_def Left_def Right_def
      countedL_def countedR_def)

section \<open>Monad and functor laws\<close>

text \<open>
  C4. \<open>Bind\<close> and \<open>BindResult\<close> are associative: binding \<open>f\<close> and then \<open>g\<close> is
  binding the callback that runs \<open>f\<close> and binds \<open>g\<close> to its result.
\<close>

theorem Bind_assoc:
  "Bind (Bind m f) g = Bind m (\<lambda>x. Bind (f x) g) \<and>
   BindResult (BindResult r h) k = BindResult r (\<lambda>x. BindResult (h x) k)"
  by (simp add: Bind_def Nothing_def BindResult_def Err_def)

text \<open>
  C5. Mapping the identity function over a Maybe or a Result gives back the value
  it was applied to, for every value that satisfies the representation invariant
  (every value the constructors build).
\<close>

theorem Map_identity:
  "(wf_Maybe m \<longrightarrow> Map m (\<lambda>x. x) = m) \<and>
   Map (Just v) (\<lambda>x. x) = Just v \<and> Map Nothing (\<lambda>x. x) = Nothing \<and>
   (wf_Result r \<longrightarrow> MapResult r (\<lambda>x. x) = r) \<and>
   MapResult (Ok w) (\<lambda>x. x) = Ok w \<and> MapResult (Err e) (\<lambda>x. x) = Err e"
  by (auto simp add: wf_Maybe_def wf_Result_def Map_def Nothing_def Just_def
      MapResult_def Err_def Ok_def)

theorem Map_identity_witness:
  "wf_Maybe (Just 7 :: int Maybe) \<and> Map (Just 7 :: int Maybe) (\<lambda>x. x) = Just 7 \<and>
   wf_Maybe (Nothing :: int Maybe) \<and> Map (Nothing :: int Maybe) (\<lambda>x. x) = Nothing \<and>
   wf_Result (Ok 7 :: (string, int) Result) \<and>
   MapResult (Ok 7 :: (string, int) Result) (\<lambda>x. x) = Ok 7 \<and>
   wf_Result (Err (Some ''bad'') :: (string, int) Result) \<and>
   MapResult (Err (Some ''bad'') :: (string, int) Result) (\<lambda>x. x) = Err (Some ''bad'')"
  using Map_identity [of "Just 7 :: int Maybe" 0 "Ok 7 :: (string, int) Result" 0 None]
    Map_identity [of "Nothing :: int Maybe" 0 "Err (Some ''bad'') :: (string, int) Result" 0 None]
  by (simp add: wf_Maybe_def wf_Result_def Just_def Nothing_def Ok_def Err_def
      Map_def MapResult_def)

section \<open>Swap\<close>

text \<open>
  C6. \<open>Swap\<close> turns \<open>Left a\<close> into \<open>Right a\<close> and \<open>Right b\<close> into \<open>Left b\<close>,
  with the payload as it was, and swapping twice gives back the Either that was
  swapped, for every value that satisfies the representation invariant (every value
  the constructors build).
\<close>

theorem Swap_involution:
  "(wf_Either e \<longrightarrow> Swap (Swap e) = e) \<and>
   Swap (Swap (Left a)) = Left a \<and> Swap (Swap (Right b)) = Right b \<and>
   Swap (Left a) = Right a \<and> Swap (Right b) = Left b"
  by (auto simp add: wf_Either_def Swap_def Left_def Right_def)

theorem Swap_involution_witness:
  "wf_Either (Left 3 :: (int, string) Either) \<and>
   Swap (Swap (Left 3 :: (int, string) Either)) = Left 3 \<and>
   wf_Either (Right ''x'' :: (int, string) Either) \<and>
   Swap (Swap (Right ''x'' :: (int, string) Either)) = Right ''x''"
  using Swap_involution [of "Left 3 :: (int, string) Either" 0 "[]"]
    Swap_involution [of "Right ''x'' :: (int, string) Either" 0 "[]"]
  by (simp add: wf_Either_def Left_def Right_def Swap_def)

text \<open>
  C7. Folding the swap of \<open>Right[string, int](100)\<close> with \<open>i \<mapsto> "num"\<close> and
  \<open>s \<mapsto> "str"\<close> gives \<open>"num"\<close>: after the swap, 100 is on the left.
\<close>

theorem Fold_Swap_Right_100:
  "Fold (Swap (Right 100 :: (string, int) Either)) (\<lambda>i. ''num'') (\<lambda>s. ''str'') = ''num'' \<and>
   IsLeft (Swap (Right 100 :: (string, int) Either)) \<and>
   Either_Left (Swap (Right 100 :: (string, int) Either)) = 100"
  by (simp add: Fold_def Swap_def Right_def Left_def IsLeft_def Either_Left_def)

section \<open>Accessors on the other alternative\<close>

text \<open>
  C8. The accessors have no failing path; on the alternative that is not populated
  they return the zero value of the payload type: \<open>Get\<close> on \<open>Nothing\<close>, \<open>Left()\<close>
  on a \<open>Right\<close> and \<open>Right()\<close> on a \<open>Left\<close>. At \<open>int\<close> and \<open>string\<close> that is
  \<open>0\<close> and the empty string.
\<close>

theorem wrong_side_zero_value:
  "Maybe_Get (Nothing :: ('t::default) Maybe) = default \<and>
   Either_Left (Right b :: ('a::default, 'b) Either) = default \<and>
   Either_Right (Left a :: ('c, 'd::default) Either) = default \<and>
   Maybe_Get (Nothing :: int Maybe) = 0 \<and>
   Maybe_Get (Nothing :: string Maybe) = [] \<and>
   Either_Left (Right s :: (int, string) Either) = 0 \<and>
   Either_Right (Left i :: (int, string) Either) = []"
  by (simp add: Maybe_Get_def Nothing_def Either_Left_def Either_Right_def Left_def
      Right_def default_int_def default_list_def)

section \<open>The bridge and MapRight\<close>

text \<open>
  C9. Converting to a Result commutes with mapping over the right side:
  \<open>ToResult (MapRight e f) = MapResult (ToResult e) f\<close>.
\<close>

theorem ToResult_MapRight:
  "ToResult (MapRight e f) = MapResult (ToResult e) f"
  by (simp add: ToResult_def MapRight_def MapResult_def Left_def Right_def Err_def Ok_def)

section \<open>An error result with a nil error\<close>

text \<open>
  C10. Whether a Result is an error is decided by the constructor alone, not by the
  error it carries. \<open>Err\<close> of any error \<open>x\<close>, nil or not, is an error result, is
  not a success, and \<open>GetErr\<close> returns \<open>x\<close> as it was stored; in particular \<open>Err\<close>
  of the nil error is an error result, is not a success, and its error is nil.
  \<open>Ok\<close> of any value is a success and is not an error result, so an error result
  with a nil error is not taken for a success. On every Result \<open>IsOk\<close> is the
  negation of \<open>IsErr\<close>, and two error results have the same status whatever their
  errors.
\<close>

theorem Err_nil_is_error:
  "IsErr (Err None :: ('e, 't::default) Result) \<and>
   \<not> IsOk (Err None :: ('e, 't::default) Result) \<and>
   GetErr (Err None :: ('e, 't::default) Result) = None \<and>
   IsErr (Err x :: ('e, 't::default) Result) \<and>
   \<not> IsOk (Err x :: ('e, 't::default) Result) \<and>
   GetErr (Err x :: ('e, 't::default) Result) = x \<and>
   IsOk (Ok y :: ('e, 't::default) Result) \<and>
   \<not> IsErr (Ok y :: ('e, 't::default) Result) \<and>
   GetErr (Ok y :: ('e, 't::default) Result) = None \<and>
   IsErr (Err x :: ('e, 't::default) Result) = IsErr (Err x' :: ('e, 't::default) Result) \<and>
   IsOk (Err x :: ('e, 't::default) Result) = IsOk (Err x' :: ('e, 't::default) Result) \<and>
   IsOk (r :: ('e, 't::default) Result) = (\<not> IsErr r) \<and>
   IsErr r = isError r"
  by (simp add: IsErr_def IsOk_def GetErr_def Err_def Ok_def)

end
